theory Spec2Isabelle
  imports Main
begin

section \<open>JavaScript values\<close>

text \<open>
  The values the logger handles. Numbers are integers of magnitude below \<open>10^21\<close>
  (the retention window is a number of days; from \<open>10^21\<close> on, the string coercion
  of the language takes the exponent form, which is not modelled); a function carries an
  identity and its source text, which is what its string coercion returns; an error value carries its \<^verbatim>\<open>name\<close> and its
  \<^verbatim>\<open>message\<close>. Messages are finite trees, so no message is circular.
\<close>

datatype jsval =
    JUndefined
  | JNull
  | JBool bool
  | JNum int
  | JStr string
  | JFun nat string
  | JError string string
  | JArr "jsval list"
  | JObj "(string \<times> jsval) list"

text \<open>\<^verbatim>\<open>typeof v === 'undefined'\<close>, \<^verbatim>\<open>typeof v === 'object'\<close>
  and \<^verbatim>\<open>typeof v === 'function'\<close>.\<close>

fun typeof_undefined :: "jsval \<Rightarrow> bool" where
  "typeof_undefined JUndefined = True"
| "typeof_undefined _ = False"

fun typeof_object :: "jsval \<Rightarrow> bool" where
  "typeof_object JNull = True"
| "typeof_object (JError _ _) = True"
| "typeof_object (JArr _) = True"
| "typeof_object (JObj _) = True"
| "typeof_object _ = False"

fun typeof_function :: "jsval \<Rightarrow> bool" where
  "typeof_function (JFun _ _) = True"
| "typeof_function _ = False"

text \<open>The predicate of the \<^verbatim>\<open>is-error\<close> package: true of error values only.\<close>

fun isError :: "jsval \<Rightarrow> bool" where
  "isError (JError _ _) = True"
| "isError _ = False"

text \<open>What \<^verbatim>\<open>if (v)\<close> and \<^verbatim>\<open>a && b\<close> test.\<close>

fun truthy :: "jsval \<Rightarrow> bool" where
  "truthy JUndefined = False"
| "truthy JNull = False"
| "truthy (JBool b) = b"
| "truthy (JNum n) = (n \<noteq> 0)"
| "truthy (JStr s) = (s \<noteq> [])"
| "truthy _ = True"

text \<open>A parameter default applies when the argument is \<^verbatim>\<open>undefined\<close>.\<close>

definition default_arg :: "jsval \<Rightarrow> jsval \<Rightarrow> jsval" where
  "default_arg v d = (if v = JUndefined then d else v)"

subsection \<open>String coercion, as a template literal performs it\<close>

fun digits :: "nat \<Rightarrow> string" where
  "digits n =
     (if n < 10 then [''0123456789'' ! n]
      else digits (n div 10) @ [''0123456789'' ! (n mod 10)])"

declare digits.simps [simp del]

fun join_comma :: "string list \<Rightarrow> string" where
  "join_comma [] = []"
| "join_comma [s] = s"
| "join_comma (s # t # ss) = s @ '','' @ join_comma (t # ss)"

text \<open>
  \<^verbatim>\<open>Error.prototype.toString\<close>: the name, a colon and the message; the
  message alone when the name is empty, the name alone when the message is empty.
\<close>

definition error_toString :: "string \<Rightarrow> string \<Rightarrow> string" where
  "error_toString name message =
     (if name = [] then message
      else if message = [] then name
      else name @ '': '' @ message)"

fun to_string :: "jsval \<Rightarrow> string" where
  "to_string JUndefined = ''undefined''"
| "to_string JNull = ''null''"
| "to_string (JBool b) = (if b then ''true'' else ''false'')"
| "to_string (JNum n) = (if n < 0 then ''-'' @ digits (nat (- n)) else digits (nat n))"
| "to_string (JStr s) = s"
| "to_string (JFun f src) = src"
| "to_string (JError name message) = error_toString name message"
| "to_string (JArr xs) =
     join_comma (map (\<lambda>x. if x = JUndefined \<or> x = JNull then [] else to_string x) xs)"
| "to_string (JObj kvs) = ''[object Object]''"

section \<open>Objects, the heap and the outside world\<close>

type_synonym obj = "string \<Rightarrow> jsval option"
type_synonym ref = nat

text \<open>An \<^verbatim>\<open>Iog\<close> instance: \<^verbatim>\<open>this.opts\<close> is a reference to
  an options object on the heap, \<^verbatim>\<open>this._paused\<close> the pause flag.\<close>

record logger =
  contextName :: jsval
  opts :: ref
  paused :: bool

text \<open>An exception: a value this code throws, or a failure inside a library call.\<close>

datatype error = Thrown jsval | LibraryThrew string

text \<open>A pending \<^verbatim>\<open>setTimeout\<close>: its delay argument, which the platform
  reads in milliseconds, and the logger whose \<^verbatim>\<open>_clear\<close> the callback runs.\<close>

record timer =
  delay_ms :: int
  target :: logger

text \<open>One call of \<^verbatim>\<open>findRemoveSync\<close>: the directory, the age limit in
  seconds (\<open>None\<close> when the product is not a number) and the extensions.\<close>

record sweep =
  dir :: jsval
  age_seconds :: "int option"
  extensions :: "jsval list"

text \<open>The completion callback handed to \<^verbatim>\<open>fs.appendFile\<close>, as a closure:
  the one of \<^verbatim>\<open>src/iog.js\<close> captures nothing, the one of the variant with
  \<^verbatim>\<open>onLog\<close> captures \<^verbatim>\<open>this.opts\<close>, the rendered body and the type.\<close>

datatype completion = Rethrow | RethrowThenOnLog ref string jsval

record pending =
  file_path :: string
  data :: string
  on_done :: completion

text \<open>
  The world outside a logger: the heap of options objects, the wall clock (the
  \<open>n\<close>-th \<^verbatim>\<open>new Date()\<close> reads \<open>clock n\<close>), and a log of every
  effect: console calls (method and text), file appends handed to the file system,
  armed timers, retention sweeps, directories created and \<^verbatim>\<open>onLog\<close> calls
  (the function and its arguments).
\<close>

record world =
  heap :: "ref \<Rightarrow> obj option"
  next_ref :: ref
  clock :: "nat \<Rightarrow> nat"
  reads :: nat
  console_out :: "(string \<times> string) list"
  appends :: "pending list"
  timers :: "timer list"
  sweeps :: "sweep list"
  dirs :: "jsval list"
  onLog_calls :: "(jsval \<times> jsval list) list"

text \<open>
  The packages the source requires and the host console, taken as parameters:
  \<^verbatim>\<open>dateformat\<close>, \<^verbatim>\<open>stringme\<close>, \<^verbatim>\<open>path.resolve\<close>
  (\<open>None\<close> when it throws), \<^verbatim>\<open>mkdirp.sync\<close> (whether it succeeds), the
  members of \<^verbatim>\<open>console\<close>, and the number a value that is not a number
  coerces to in a product (\<open>None\<close> for \<^verbatim>\<open>NaN\<close>).
\<close>

datatype member = Method | NotCallable

record env =
  dateFormat :: "nat \<Rightarrow> string \<Rightarrow> string"
  stringify :: "jsval \<Rightarrow> jsval \<Rightarrow> string"
  path_resolve :: "jsval \<Rightarrow> jsval \<Rightarrow> string option"
  mkdirp_sync :: "jsval \<Rightarrow> bool"
  console_member :: "string \<Rightarrow> member option"
  coerce_number :: "jsval \<Rightarrow> int option"

definition number_of :: "env \<Rightarrow> jsval \<Rightarrow> int option" where
  "number_of e v = (case v of JNum n \<Rightarrow> Some n | _ \<Rightarrow> coerce_number e v)"

subsection \<open>Heap operations\<close>

definition obj_at :: "world \<Rightarrow> ref \<Rightarrow> obj" where
  "obj_at w r = (case heap w r of None \<Rightarrow> Map.empty | Some ob \<Rightarrow> ob)"

text \<open>Reading a property; a missing one reads \<^verbatim>\<open>undefined\<close>.\<close>

definition get_prop :: "world \<Rightarrow> ref \<Rightarrow> string \<Rightarrow> jsval" where
  "get_prop w r k = (case obj_at w r k of None \<Rightarrow> JUndefined | Some v \<Rightarrow> v)"

definition set_prop :: "world \<Rightarrow> ref \<Rightarrow> string \<Rightarrow> jsval \<Rightarrow> world" where
  "set_prop w r k v = w\<lparr>heap := (heap w)(r \<mapsto> (obj_at w r)(k \<mapsto> v))\<rparr>"

text \<open>\<^verbatim>\<open>Object.assign(target, source)\<close>: every property of the source is
  written into the target object, in place; the target is returned.\<close>

definition Object_assign :: "world \<Rightarrow> ref \<Rightarrow> obj \<Rightarrow> world" where
  "Object_assign w r src = w\<lparr>heap := (heap w)(r \<mapsto> obj_at w r ++ src)\<rparr>"

text \<open>An object literal: a fresh object.\<close>

definition new_object :: "world \<Rightarrow> obj \<Rightarrow> ref \<times> world" where
  "new_object w ob =
     (next_ref w, w\<lparr>heap := (heap w)(next_ref w \<mapsto> ob), next_ref := Suc (next_ref w)\<rparr>)"

text \<open>\<^verbatim>\<open>new Date()\<close>: the next reading of the clock.\<close>

definition new_Date :: "world \<Rightarrow> nat \<times> world" where
  "new_Date w = (clock w (reads w), w\<lparr>reads := Suc (reads w)\<rparr>)"

section \<open>The logger\<close>

text \<open>
  Two versions of the class are in the repository: \<^verbatim>\<open>src/iog.js\<close> and a later
  one (the unnamed source file) that adds the \<^verbatim>\<open>slim\<close> and
  \<^verbatim>\<open>onLog\<close> options. Where the two differ, the definitions of the first are
  prefixed \<open>iog_\<close> and those of the second \<open>p0_\<close>; \<^verbatim>\<open>_clear\<close>,
  \<^verbatim>\<open>_filePath\<close>, \<^verbatim>\<open>pause\<close>, \<^verbatim>\<open>resume\<close> and the
  constructor's lines after the merge are the same text in both.
\<close>

definition LF :: char where
  "LF = CHR 0x0A"

definition SEPARATOR :: string where
  "SEPARATOR = [LF, LF] @ replicate 87 (CHR ''-'') @ [LF, LF]"

definition DAY_SECONDS :: int where
  "DAY_SECONDS = 86400"

subsection \<open>Defaults\<close>

definition iog_defaults :: obj where
  "iog_defaults =
     [''path'' \<mapsto> JStr ''log'',
      ''logExt'' \<mapsto> JStr ''.log'',
      ''separator'' \<mapsto> JStr SEPARATOR,
      ''console'' \<mapsto> JBool True,
      ''rotation'' \<mapsto> JBool False,
      ''deleteAge'' \<mapsto> JNum 0]"

definition p0_defaults :: obj where
  "p0_defaults =
     [''path'' \<mapsto> JStr ''logs'',
      ''logExt'' \<mapsto> JStr ''.log'',
      ''separator'' \<mapsto> JStr SEPARATOR,
      ''console'' \<mapsto> JBool True,
      ''rotation'' \<mapsto> JBool False,
      ''deleteAge'' \<mapsto> JNum 0,
      ''slim'' \<mapsto> JBool False,
      ''onLog'' \<mapsto> JNull]"

subsection \<open>\<^verbatim>\<open>_clear\<close>\<close>

text \<open>
  One run of the retention sweep: \<^verbatim>\<open>findRemoveSync\<close> on the directory with
  the age \<^verbatim>\<open>deleteAge * DAY_SECONDS\<close> seconds, then
  \<^verbatim>\<open>setTimeout(() => this._clear(), DAY_SECONDS)\<close>.
\<close>

definition clear :: "env \<Rightarrow> world \<Rightarrow> logger \<Rightarrow> world" where
  "clear e w this =
     w\<lparr>sweeps := sweeps w @
          [\<lparr>dir = get_prop w (opts this) ''path'',
            age_seconds =
              map_option (\<lambda>n. n * DAY_SECONDS) (number_of e (get_prop w (opts this) ''deleteAge'')),
            extensions = [get_prop w (opts this) ''logExt'']\<rparr>],
       timers := timers w @ [\<lparr>delay_ms = DAY_SECONDS, target = this\<rparr>]\<rparr>"

text \<open>The oldest pending timer fires: its callback runs \<^verbatim>\<open>_clear\<close> again.\<close>

definition timer_fires :: "env \<Rightarrow> world \<Rightarrow> world" where
  "timer_fires e w =
     (case timers w of
        [] \<Rightarrow> w
      | t # ts \<Rightarrow> clear e (w\<lparr>timers := ts\<rparr>) (target t))"

subsection \<open>The constructor\<close>

text \<open>
  The lines after the merge: under rotation the path becomes
  \<^verbatim>\<open>path.resolve(path, contextName)\<close> and, when \<^verbatim>\<open>deleteAge\<close> is
  truthy, the sweep starts; then the directory is created when the path is truthy.
  An exception leaves the effects made before it.
\<close>

definition constructor_rest :: "env \<Rightarrow> world \<Rightarrow> logger \<Rightarrow> (error + logger) \<times> world" where
  "constructor_rest e w this =
     (case (if truthy (get_prop w (opts this) ''rotation'')
            then (case path_resolve e (get_prop w (opts this) ''path'') (contextName this) of
                    None \<Rightarrow> (Inl (LibraryThrew ''path.resolve''), w)
                  | Some p \<Rightarrow>
                      (let w1 = set_prop w (opts this) ''path'' (JStr p)
                       in if truthy (get_prop w1 (opts this) ''deleteAge'')
                          then (Inr (), clear e w1 this)
                          else (Inr (), w1)))
            else (Inr (), w)) of
        (Inl err, w2) \<Rightarrow> (Inl err, w2)
      | (Inr u, w2) \<Rightarrow>
          (if truthy (get_prop w2 (opts this) ''path'')
           then (if mkdirp_sync e (get_prop w2 (opts this) ''path'')
                 then (Inr this, w2\<lparr>dirs := dirs w2 @ [get_prop w2 (opts this) ''path'']\<rparr>)
                 else (Inl (LibraryThrew ''mkdirp.sync''), w2))
           else (Inr this, w2)))"

text \<open>
  \<^verbatim>\<open>src/iog.js\<close>: \<^verbatim>\<open>this.opts = Object.assign(opts, {defaults})\<close>.
  The target of the merge is the caller's object (a fresh \<^verbatim>\<open>{}\<close> when the
  argument is omitted), and the defaults are the source written into it. The result is
  the reference kept in \<^verbatim>\<open>this.opts\<close>.
\<close>

definition iog_merge :: "world \<Rightarrow> ref option \<Rightarrow> ref \<times> world" where
  "iog_merge w opts_arg =
     (let (r, w0) = (case opts_arg of None \<Rightarrow> new_object w Map.empty | Some a \<Rightarrow> (a, w))
      in (r, Object_assign w0 r iog_defaults))"

definition iog_constructor ::
  "env \<Rightarrow> world \<Rightarrow> jsval \<Rightarrow> ref option \<Rightarrow> (error + logger) \<times> world" where
  "iog_constructor e w ctx opts_arg =
     (if typeof_undefined ctx
      then (Inl (Thrown (JError ''TypeError'' ''context name is required'')), w)
      else
        (let (r, w1) = iog_merge w opts_arg
         in constructor_rest e w1 \<lparr>contextName = ctx, opts = r, paused = False\<rparr>))"

text \<open>
  The later version: \<^verbatim>\<open>this.opts = Object.assign({defaults}, opts)\<close>. The
  target is a fresh object holding the defaults, and the caller's options (none when the
  argument is omitted) are the source written into it.
\<close>

definition p0_merge :: "world \<Rightarrow> ref option \<Rightarrow> ref \<times> world" where
  "p0_merge w opts_arg =
     (let supplied = (case opts_arg of None \<Rightarrow> Map.empty | Some a \<Rightarrow> obj_at w a);
          (r, w0) = new_object w p0_defaults
      in (r, Object_assign w0 r supplied))"

definition p0_constructor ::
  "env \<Rightarrow> world \<Rightarrow> jsval \<Rightarrow> ref option \<Rightarrow> (error + logger) \<times> world" where
  "p0_constructor e w ctx opts_arg =
     (if typeof_undefined ctx
      then (Inl (Thrown (JError ''TypeError'' ''context name is required'')), w)
      else
        (let (r, w1) = p0_merge w opts_arg
         in constructor_rest e w1 \<lparr>contextName = ctx, opts = r, paused = False\<rparr>))"

subsection \<open>\<^verbatim>\<open>_filePath\<close>, \<^verbatim>\<open>pause\<close>, \<^verbatim>\<open>resume\<close>\<close>

definition filePath :: "env \<Rightarrow> world \<Rightarrow> logger \<Rightarrow> string \<times> world" where
  "filePath e w this =
     (let (fileName, w1) =
            (if truthy (get_prop w (opts this) ''rotation'')
             then (let (now, w') = new_Date w in (dateFormat e now ''yyyy-mm-dd'', w'))
             else (to_string (contextName this), w))
      in (to_string (get_prop w1 (opts this) ''path'') @ ''/'' @ fileName @
          to_string (get_prop w1 (opts this) ''logExt''), w1))"

definition pause :: "logger \<Rightarrow> logger" where
  "pause this = this\<lparr>paused := True\<rparr>"

definition resume :: "logger \<Rightarrow> logger" where
  "resume this = this\<lparr>paused := False\<rparr>"

subsection \<open>\<^verbatim>\<open>write\<close>\<close>

text \<open>
  \<^verbatim>\<open>console[type in console ? type : 'log'](body)\<close>, when the
  \<^verbatim>\<open>console\<close> option and \<^verbatim>\<open>show\<close> are truthy. Calling a member
  that is not a function throws.
\<close>

definition console_step ::
  "env \<Rightarrow> world \<Rightarrow> logger \<Rightarrow> jsval \<Rightarrow> jsval \<Rightarrow> string \<Rightarrow> (error + unit) \<times> world" where
  "console_step e w this type show body =
     (if truthy (get_prop w (opts this) ''console'') \<and> truthy show
      then (let key = (if console_member e (to_string type) \<noteq> None then to_string type else ''log'')
            in (case console_member e key of
                  Some Method \<Rightarrow> (Inr (), w\<lparr>console_out := console_out w @ [(key, body)]\<rparr>)
                | _ \<Rightarrow> (Inl (LibraryThrew ''console''), w)))
      else (Inr (), w))"

text \<open>\<^verbatim>\<open>fs.appendFile(this._filePath(), body, callback)\<close>: the append is handed
  to the file system with its completion callback; it completes later.\<close>

definition appendFile :: "env \<Rightarrow> world \<Rightarrow> logger \<Rightarrow> string \<Rightarrow> completion \<Rightarrow> world" where
  "appendFile e w this body cb =
     (let (p, w1) = filePath e w this
      in w1\<lparr>appends := appends w1 @ [\<lparr>file_path = p, data = body, on_done = cb\<rparr>]\<rparr>)"

text \<open>The block format, the same template in both versions.\<close>

definition block :: "logger \<Rightarrow> string \<Rightarrow> jsval \<Rightarrow> jsval \<Rightarrow> jsval \<Rightarrow> string" where
  "block this date type msg separator =
     ''CONTEXT: '' @ to_string (contextName this) @ [LF] @
     ''DATE: '' @ date @ [LF] @
     ''TYPE: '' @ to_string type @ [LF] @
     ''BODY:'' @ [LF, LF] @ to_string msg @ to_string separator"

text \<open>\<^verbatim>\<open>if (typeof msg === 'object' && !isError(msg)) msg = stringify(msg, {replace: null, space: 2})\<close>\<close>

definition serialize_msg :: "env \<Rightarrow> jsval \<Rightarrow> jsval" where
  "serialize_msg e msg =
     (if typeof_object msg \<and> \<not> isError msg
      then JStr (stringify e msg (JObj [(''replace'', JNull), (''space'', JNum 2)]))
      else msg)"

definition iog_write ::
  "env \<Rightarrow> world \<Rightarrow> logger \<Rightarrow> jsval \<Rightarrow> jsval \<Rightarrow> jsval \<Rightarrow> (error + unit) \<times> world" where
  "iog_write e w this msg0 type0 show0 =
     (let msg = default_arg msg0 (JStr []);
          type = default_arg type0 (JStr ''log'');
          show = default_arg show0 (JBool True)
      in if paused this then (Inr (), w)
         else
           (let msg1 = serialize_msg e msg;
                (now, w1) = new_Date w;
                date = dateFormat e now ''yyyy-mm-dd HH:MM:ss:l'';
                body = block this date type msg1 (get_prop w1 (opts this) ''separator'')
            in (case console_step e w1 this type show body of
                  (Inl err, w2) \<Rightarrow> (Inl err, w2)
                | (Inr u, w2) \<Rightarrow> (Inr (), appendFile e w2 this body Rethrow))))"

text \<open>The record of the later version: in slim mode the object
  \<^verbatim>\<open>{CONTEXT, DATE, TYPE, BODY}\<close> with \<^verbatim>\<open>BODY = msg\<close>, serialised
  by one call of \<^verbatim>\<open>stringify\<close> with no options, and a line feed; the block
  format otherwise.\<close>

definition p0_body :: "env \<Rightarrow> world \<Rightarrow> logger \<Rightarrow> string \<Rightarrow> jsval \<Rightarrow> jsval \<Rightarrow> string" where
  "p0_body e w this date type msg =
     (if truthy (get_prop w (opts this) ''slim'')
      then stringify e
             (JObj [(''CONTEXT'', contextName this), (''DATE'', JStr date),
                    (''TYPE'', type), (''BODY'', msg)]) JUndefined @ [LF]
      else block this date type (serialize_msg e msg) (get_prop w (opts this) ''separator''))"

definition p0_write ::
  "env \<Rightarrow> world \<Rightarrow> logger \<Rightarrow> jsval \<Rightarrow> jsval \<Rightarrow> jsval \<Rightarrow> (error + unit) \<times> world" where
  "p0_write e w this msg0 type0 show0 =
     (let msg = default_arg msg0 (JStr []);
          type = default_arg type0 (JStr ''log'');
          show = default_arg show0 (JBool True)
      in if paused this then (Inr (), w)
         else
           (let (now, w1) = new_Date w;
                date = dateFormat e now ''yyyy-mm-dd HH:MM:ss:l'';
                body = p0_body e w1 this date type msg
            in (case console_step e w1 this type show body of
                  (Inl err, w2) \<Rightarrow> (Inl err, w2)
                | (Inr u, w2) \<Rightarrow>
                    (Inr (), appendFile e w2 this body (RethrowThenOnLog (opts this) body type)))))"

subsection \<open>Completion of an append\<close>

text \<open>\<^verbatim>\<open>(err) => { if (err) throw err; }\<close>\<close>

definition iog_callback :: "world \<Rightarrow> jsval \<Rightarrow> (error + unit) \<times> world" where
  "iog_callback w err = (if truthy err then (Inl (Thrown err), w) else (Inr (), w))"

text \<open>\<^verbatim>\<open>(err) => { if (err) throw err;
  if (typeof this.opts.onLog === 'function') this.opts.onLog(body, type); }\<close>\<close>

definition p0_callback ::
  "world \<Rightarrow> ref \<Rightarrow> string \<Rightarrow> jsval \<Rightarrow> jsval \<Rightarrow> (error + unit) \<times> world" where
  "p0_callback w r body type err =
     (if truthy err then (Inl (Thrown err), w)
      else if typeof_function (get_prop w r ''onLog'')
      then (Inr (), w\<lparr>onLog_calls := onLog_calls w @ [(get_prop w r ''onLog'', [JStr body, type])]\<rparr>)
      else (Inr (), w))"

text \<open>The file system completes a pending append with \<open>err\<close>: \<^verbatim>\<open>null\<close>
  on success, the error otherwise.\<close>

definition append_done :: "world \<Rightarrow> pending \<Rightarrow> jsval \<Rightarrow> (error + unit) \<times> world" where
  "append_done w p err =
     (case on_done p of
        Rethrow \<Rightarrow> iog_callback w err
      | RethrowThenOnLog r body type \<Rightarrow> p0_callback w r body type err)"

text \<open>Calls of \<^verbatim>\<open>write\<close> one after the other, each given as its three
  arguments; an exception ends the run.\<close>

fun write_all ::
  "(world \<Rightarrow> jsval \<Rightarrow> jsval \<Rightarrow> jsval \<Rightarrow> (error + unit) \<times> world) \<Rightarrow>
   world \<Rightarrow> (jsval \<times> jsval \<times> jsval) list \<Rightarrow> (error + unit) \<times> world" where
  "write_all wr w [] = (Inr (), w)"
| "write_all wr w ((msg, type, show) # calls) =
     (case wr w msg type show of
        (Inl err, w') \<Rightarrow> (Inl err, w')
      | (Inr u, w') \<Rightarrow> write_all wr w' calls)"

section \<open>A concrete environment\<close>

text \<open>
  An instance of the parameters, on which the theorems below are run: a serialiser that
  writes compact JSON text whatever its options, a \<^verbatim>\<open>path.resolve\<close> under
  \<^verbatim>\<open>/app\<close>, a file system that creates every directory, the usual console
  methods, and a clock whose \<open>n\<close>-th reading is \<open>n\<close>.
\<close>

fun escape_char :: "char \<Rightarrow> string" where
  "escape_char c =
     (if c = CHR 0x22 then [CHR 0x5C, CHR 0x22]
      else if c = CHR 0x5C then [CHR 0x5C, CHR 0x5C]
      else if c = LF then [CHR 0x5C, CHR ''n'']
      else [c])"

definition quote :: "string \<Rightarrow> string" where
  "quote s = [CHR 0x22] @ concat (map escape_char s) @ [CHR 0x22]"

text \<open>The text of an object whose members are already serialised.\<close>

definition object_text :: "(string \<times> string) list \<Rightarrow> string" where
  "object_text ms = ''{'' @ join_comma (map (\<lambda>(k, t). quote k @ '':'' @ t) ms) @ ''}''"

fun json :: "jsval \<Rightarrow> string" where
  "json JUndefined = ''undefined''"
| "json JNull = ''null''"
| "json (JBool b) = (if b then ''true'' else ''false'')"
| "json (JNum n) = to_string (JNum n)"
| "json (JStr s) = quote s"
| "json (JFun f src) = ''null''"
| "json (JError name message) = ''{}''"
| "json (JArr xs) = ''['' @ join_comma (map json xs) @ '']''"
| "json (JObj kvs) = object_text (map (\<lambda>(k, v). (k, json v)) kvs)"

definition sample_env :: env where
  "sample_env =
     \<lparr>dateFormat =
        (\<lambda>t p. if p = ''yyyy-mm-dd'' then ''1970-01-01'' else ''1970-01-01 00:00:00:000''),
      stringify = (\<lambda>v options. json v),
      path_resolve =
        (\<lambda>p c. case (p, c) of (JStr a, JStr b) \<Rightarrow> Some (''/app/'' @ a @ ''/'' @ b) | _ \<Rightarrow> None),
      mkdirp_sync = (\<lambda>p. True),
      console_member =
        (\<lambda>k. if k \<in> set [''log'', ''info'', ''warn'', ''error'', ''trace''] then Some Method
             else None),
      coerce_number = (\<lambda>v. None)\<rparr>"

text \<open>The world at start, holding one caller's object at reference \<open>0\<close>.\<close>

definition boot :: "obj \<Rightarrow> world" where
  "boot ob =
     \<lparr>heap = [0 \<mapsto> ob], next_ref = 1, clock = (\<lambda>n. n), reads = 0, console_out = [],
      appends = [], timers = [], sweeps = [], dirs = [], onLog_calls = []\<rparr>"

section \<open>The merge, as the documentation words it\<close>

text \<open>The options a caller supplied: those of the object passed, none when the argument
  is omitted.\<close>

definition supplied_opts :: "world \<Rightarrow> ref option \<Rightarrow> obj" where
  "supplied_opts w opts_arg = (case opts_arg of None \<Rightarrow> Map.empty | Some a \<Rightarrow> obj_at w a)"

text \<open>Supplied options merged over defaults: an option the caller supplies wins, a
  default is used for an option the caller omits, and an option neither has reads
  \<^verbatim>\<open>undefined\<close>. This follows the documentation of the options, not the code.\<close>

definition merged_over :: "obj \<Rightarrow> obj \<Rightarrow> string \<Rightarrow> jsval" where
  "merged_over supplied defaults k =
     (case supplied k of
        Some v \<Rightarrow> v
      | None \<Rightarrow> (case defaults k of Some d \<Rightarrow> d | None \<Rightarrow> JUndefined))"

text \<open>The delay argument of \<^verbatim>\<open>setTimeout\<close> that stands for a number of
  seconds.\<close>

definition seconds_as_ms :: "int \<Rightarrow> int" where
  "seconds_as_ms s = 1000 * s"

section \<open>Sample loggers\<close>

text \<open>A logger of the first version made with no options of the caller's (its options
  object is the caller's, at reference \<open>0\<close>) and one of the later version made with
  \<^verbatim>\<open>{slim: true, onLog: cb}\<close> (its options object is fresh, at reference
  \<open>1\<close>), each with the world its construction leaves; and the record the second
  renders for the message \<^verbatim>\<open>{a: 1}\<close>.\<close>

definition svc0 :: logger where
  "svc0 = \<lparr>contextName = JStr ''svc'', opts = 0, paused = False\<rparr>"

definition iog_world :: world where
  "iog_world = snd (iog_constructor sample_env (boot Map.empty) (JStr ''svc'') (Some 0))"

definition svc :: logger where
  "svc = \<lparr>contextName = JStr ''svc'', opts = 1, paused = False\<rparr>"

definition slim_world :: world where
  "slim_world =
     snd (p0_constructor sample_env (boot [''slim'' \<mapsto> JBool True, ''onLog'' \<mapsto> JFun 7 ''cb''])
            (JStr ''svc'') (Some 0))"

definition slim_text :: string where
  "slim_text =
     object_text [(''CONTEXT'', quote ''svc''), (''DATE'', quote ''1970-01-01 00:00:00:000''),
                  (''TYPE'', quote ''log''), (''BODY'', object_text [(''a'', ''1'')])] @ [LF]"

section \<open>Reading the heap after an update\<close>

lemma get_prop_Object_assign:
  "get_prop (Object_assign w r src) r k = (case src k of Some v \<Rightarrow> v | None \<Rightarrow> get_prop w r k)"
  by (simp add: get_prop_def Object_assign_def obj_at_def map_add_def split: option.splits)

lemma get_prop_new_object:
  "get_prop (snd (new_object w ob)) (fst (new_object w ob)) k =
     (case ob k of None \<Rightarrow> JUndefined | Some v \<Rightarrow> v)"
  by (simp add: new_object_def get_prop_def obj_at_def)

section \<open>Pause and resume\<close>

lemma paused_p0_write: "paused this \<Longrightarrow> p0_write e w this msg type show = (Inr (), w)"
  by (simp add: p0_write_def)

lemma paused_iog_write: "paused this \<Longrightarrow> iog_write e w this msg type show = (Inr (), w)"
  by (simp add: iog_write_def)

lemma write_all_no_effect:
  "(\<And>w msg type show. wr w msg type show = (Inr (), w)) \<Longrightarrow> write_all wr w calls = (Inr (), w)"
  by (induction calls) auto

text \<open>
  C8. After \<^verbatim>\<open>pause()\<close>, any sequence of \<^verbatim>\<open>write\<close> calls, whatever
  their message, type and show arguments, returns normally and leaves the world as it
  was: no console output, no file append, no clock reading, no other effect (a logger is
  changed by \<^verbatim>\<open>pause\<close> and \<^verbatim>\<open>resume\<close> only). After
  \<^verbatim>\<open>resume()\<close> a write does exactly what it does on the logger that was never
  paused, in the world as it was before the paused writes: nothing is replayed. This
  holds in both versions of the class.
\<close>

theorem paused_writes_have_no_effect:
  "write_all (\<lambda>w. p0_write e w (pause this)) w calls = (Inr (), w) \<and>
   write_all (\<lambda>w. iog_write e w (pause this)) w calls = (Inr (), w) \<and>
   p0_write e (snd (write_all (\<lambda>w. p0_write e w (pause this)) w calls))
       (resume (pause this)) msg type show
     = p0_write e w (this\<lparr>paused := False\<rparr>) msg type show \<and>
   iog_write e (snd (write_all (\<lambda>w. iog_write e w (pause this)) w calls))
       (resume (pause this)) msg type show
     = iog_write e w (this\<lparr>paused := False\<rparr>) msg type show"
proof -
  have p: "write_all (\<lambda>w. p0_write e w (pause this)) w calls = (Inr (), w)"
    by (rule write_all_no_effect) (simp add: paused_p0_write pause_def)
  have i: "write_all (\<lambda>w. iog_write e w (pause this)) w calls = (Inr (), w)"
    by (rule write_all_no_effect) (simp add: paused_iog_write pause_def)
  have r: "resume (pause this) = this\<lparr>paused := False\<rparr>"
    by (simp add: resume_def pause_def)
  show ?thesis by (simp add: p i r)
qed

section \<open>The context name\<close>

lemma constructor_rest_not_Thrown: "fst (constructor_rest e w this) \<noteq> Inl (Thrown v)"
  by (simp add: constructor_rest_def Let_def split: option.splits)

text \<open>
  C3, as stated, fails: the guard is \<^verbatim>\<open>typeof contextName === 'undefined'\<close>, so
  the empty string is accepted. With the empty context name and no options, both
  versions return a logger whose context name is the empty string.
\<close>

theorem empty_context_name_accepted:
  "fst (iog_constructor sample_env (boot Map.empty) (JStr []) None) =
     Inr \<lparr>contextName = JStr [], opts = 1, paused = False\<rparr> \<and>
   fst (p0_constructor sample_env (boot Map.empty) (JStr []) None) =
     Inr \<lparr>contextName = JStr [], opts = 1, paused = False\<rparr>"
  by (simp add: iog_constructor_def p0_constructor_def iog_merge_def p0_merge_def
      new_object_def boot_def Object_assign_def constructor_rest_def get_prop_def obj_at_def
      iog_defaults_def p0_defaults_def sample_env_def)

text \<open>
  C3, amended. When the context name is absent (\<^verbatim>\<open>undefined\<close>), construction
  throws \<^verbatim>\<open>TypeError('context name is required')\<close> at once: no logger is
  returned and the world is untouched. For every other context name, the empty string
  included, construction never fails with that error (it can still fail inside
  \<^verbatim>\<open>path.resolve\<close> or \<^verbatim>\<open>mkdirp.sync\<close>).
\<close>

theorem constructor_context_name:
  "iog_constructor e w JUndefined opts_arg =
     (Inl (Thrown (JError ''TypeError'' ''context name is required'')), w) \<and>
   p0_constructor e w JUndefined opts_arg =
     (Inl (Thrown (JError ''TypeError'' ''context name is required'')), w) \<and>
   (ctx \<noteq> JUndefined \<longrightarrow>
      fst (iog_constructor e w ctx opts_arg) \<noteq>
        Inl (Thrown (JError ''TypeError'' ''context name is required'')) \<and>
      fst (p0_constructor e w ctx opts_arg) \<noteq>
        Inl (Thrown (JError ''TypeError'' ''context name is required'')))"
proof -
  have u: "ctx \<noteq> JUndefined \<Longrightarrow> \<not> typeof_undefined ctx" by (cases ctx) simp_all
  show ?thesis
    by (simp add: iog_constructor_def p0_constructor_def split_def Let_def u
        constructor_rest_not_Thrown)
qed

theorem constructor_context_name_witness:
  "JStr ''svc'' \<noteq> JUndefined \<and>
   iog_constructor sample_env (boot Map.empty) JUndefined None =
     (Inl (Thrown (JError ''TypeError'' ''context name is required'')), boot Map.empty) \<and>
   fst (iog_constructor sample_env (boot Map.empty) (JStr ''svc'') None) \<noteq>
     Inl (Thrown (JError ''TypeError'' ''context name is required'')) \<and>
   fst (p0_constructor sample_env (boot Map.empty) (JStr ''svc'') None) \<noteq>
     Inl (Thrown (JError ''TypeError'' ''context name is required''))"
  using constructor_context_name [of sample_env "boot Map.empty" None "JStr ''svc''"]
  by simp

section \<open>What a write appends\<close>

lemma member_case:
  "(case m of None \<Rightarrow> B | Some Method \<Rightarrow> A | Some NotCallable \<Rightarrow> B) =
     (if m = Some Method then A else B)"
  by (simp split: option.splits member.splits)

lemma console_step_cases:
  "console_step e w this t s b = (Inl (LibraryThrew ''console''), w) \<or>
   (\<exists>c. console_step e w this t s b = (Inr (), w\<lparr>console_out := c\<rparr>))"
proof -
  define key where "key = (if console_member e (to_string t) \<noteq> None then to_string t else ''log'')"
  have cs: "console_step e w this t s b =
      (if truthy (get_prop w (opts this) ''console'') \<and> truthy s
       then (if console_member e key = Some Method
             then (Inr (), w\<lparr>console_out := console_out w @ [(key, b)]\<rparr>)
             else (Inl (LibraryThrew ''console''), w))
       else (Inr (), w\<lparr>console_out := console_out w\<rparr>))"
    unfolding console_step_def Let_def member_case key_def by simp
  show ?thesis unfolding cs by (simp only: split: if_splits) blast
qed

lemma filePath_console_out [simp]:
  "fst (filePath e (w\<lparr>console_out := c\<rparr>) this) = fst (filePath e w this)"
  by (simp add: filePath_def new_Date_def get_prop_def obj_at_def split_def)

lemma appends_filePath [simp]: "appends (snd (filePath e w this)) = appends w"
  by (simp add: filePath_def new_Date_def split_def)

lemma appends_appendFile:
  "appends (appendFile e w this body cb) =
     appends w @ [\<lparr>file_path = fst (filePath e w this), data = body, on_done = cb\<rparr>]"
  by (simp add: appendFile_def split_def Let_def)

lemma p0_write_appends:
  "appends (snd (p0_write e w this msg type show)) =
     appends w @
     (if \<not> paused this \<and> fst (p0_write e w this msg type show) = Inr ()
      then [\<lparr>file_path = fst (filePath e (snd (new_Date w)) this),
             data = p0_body e (snd (new_Date w)) this
                      (dateFormat e (fst (new_Date w)) ''yyyy-mm-dd HH:MM:ss:l'')
                      (default_arg type (JStr ''log'')) (default_arg msg (JStr [])),
             on_done = RethrowThenOnLog (opts this)
                      (p0_body e (snd (new_Date w)) this
                         (dateFormat e (fst (new_Date w)) ''yyyy-mm-dd HH:MM:ss:l'')
                         (default_arg type (JStr ''log'')) (default_arg msg (JStr [])))
                      (default_arg type (JStr ''log''))\<rparr>]
      else [])"
proof (cases "paused this")
  case True
  then show ?thesis by (simp add: paused_p0_write)
next
  case False
  let ?w1 = "snd (new_Date w)"
  let ?T = "default_arg type (JStr ''log'')"
  let ?B = "p0_body e ?w1 this (dateFormat e (fst (new_Date w)) ''yyyy-mm-dd HH:MM:ss:l'') ?T
              (default_arg msg (JStr []))"
  have a: "appends ?w1 = appends w" by (simp add: new_Date_def)
  from console_step_cases [of e ?w1 this ?T "default_arg show (JBool True)" ?B]
  show ?thesis
  proof
    assume "console_step e ?w1 this ?T (default_arg show (JBool True)) ?B =
              (Inl (LibraryThrew ''console''), ?w1)"
    with False show ?thesis by (simp add: p0_write_def Let_def split_def a)
  next
    assume "\<exists>c. console_step e ?w1 this ?T (default_arg show (JBool True)) ?B =
              (Inr (), ?w1\<lparr>console_out := c\<rparr>)"
    then obtain c where "console_step e ?w1 this ?T (default_arg show (JBool True)) ?B =
              (Inr (), ?w1\<lparr>console_out := c\<rparr>)" ..
    with False show ?thesis
      by (simp add: p0_write_def Let_def split_def appends_appendFile a)
  qed
qed

lemma iog_write_appends:
  "appends (snd (iog_write e w this msg type show)) =
     appends w @
     (if \<not> paused this \<and> fst (iog_write e w this msg type show) = Inr ()
      then [\<lparr>file_path = fst (filePath e (snd (new_Date w)) this),
             data = block this (dateFormat e (fst (new_Date w)) ''yyyy-mm-dd HH:MM:ss:l'')
                      (default_arg type (JStr ''log''))
                      (serialize_msg e (default_arg msg (JStr [])))
                      (get_prop (snd (new_Date w)) (opts this) ''separator''),
             on_done = Rethrow\<rparr>]
      else [])"
proof (cases "paused this")
  case True
  then show ?thesis by (simp add: paused_iog_write)
next
  case False
  let ?w1 = "snd (new_Date w)"
  let ?T = "default_arg type (JStr ''log'')"
  let ?B = "block this (dateFormat e (fst (new_Date w)) ''yyyy-mm-dd HH:MM:ss:l'') ?T
              (serialize_msg e (default_arg msg (JStr [])))
              (get_prop ?w1 (opts this) ''separator'')"
  have a: "appends ?w1 = appends w" by (simp add: new_Date_def)
  from console_step_cases [of e ?w1 this ?T "default_arg show (JBool True)" ?B]
  show ?thesis
  proof
    assume "console_step e ?w1 this ?T (default_arg show (JBool True)) ?B =
              (Inl (LibraryThrew ''console''), ?w1)"
    with False show ?thesis by (simp add: iog_write_def Let_def split_def a)
  next
    assume "\<exists>c. console_step e ?w1 this ?T (default_arg show (JBool True)) ?B =
              (Inr (), ?w1\<lparr>console_out := c\<rparr>)"
    then obtain c where "console_step e ?w1 this ?T (default_arg show (JBool True)) ?B =
              (Inr (), ?w1\<lparr>console_out := c\<rparr>)" ..
    with False show ?thesis
      by (simp add: iog_write_def Let_def split_def appends_appendFile a)
  qed
qed

section \<open>The file path, the completion callback and the rendered record\<close>

lemma get_prop_new_Date [simp]: "get_prop (snd (new_Date w)) r k = get_prop w r k"
  by (simp add: new_Date_def get_prop_def obj_at_def)

lemma fst_new_Date [simp]: "fst (new_Date w) = clock w (reads w)"
  by (simp add: new_Date_def)

lemma filePath_eq:
  "filePath e w this =
     (if truthy (get_prop w (opts this) ''rotation'')
      then (to_string (get_prop w (opts this) ''path'') @ ''/'' @
            dateFormat e (clock w (reads w)) ''yyyy-mm-dd'' @
            to_string (get_prop w (opts this) ''logExt''), w\<lparr>reads := Suc (reads w)\<rparr>)
      else (to_string (get_prop w (opts this) ''path'') @ ''/'' @
            to_string (contextName this) @
            to_string (get_prop w (opts this) ''logExt''), w))"
  by (simp add: filePath_def new_Date_def get_prop_def obj_at_def)

text \<open>
  C9. The path \<^verbatim>\<open>_filePath\<close> returns is the directory, a slash, the file name
  and the extension (each option as the template literal coerces it): the file name is the
  context name when \<^verbatim>\<open>rotation\<close> is falsy, and the clock's current reading
  formatted \<^verbatim>\<open>yyyy-mm-dd\<close> when it is truthy. Every write that is not paused
  and does not throw appends to the path computed then, by a clock reading of its own
  taken after the one that stamps the record; a write that is paused or throws appends
  nothing. Both versions.
\<close>

theorem log_file_path:
  "filePath e w this =
     (if truthy (get_prop w (opts this) ''rotation'')
      then (to_string (get_prop w (opts this) ''path'') @ ''/'' @
            dateFormat e (clock w (reads w)) ''yyyy-mm-dd'' @
            to_string (get_prop w (opts this) ''logExt''), w\<lparr>reads := Suc (reads w)\<rparr>)
      else (to_string (get_prop w (opts this) ''path'') @ ''/'' @
            to_string (contextName this) @
            to_string (get_prop w (opts this) ''logExt''), w)) \<and>
   map file_path (appends (snd (iog_write e w this msg type show))) =
     map file_path (appends w) @
     (if \<not> paused this \<and> fst (iog_write e w this msg type show) = Inr ()
      then [fst (filePath e (snd (new_Date w)) this)] else []) \<and>
   map file_path (appends (snd (p0_write e w this msg type show))) =
     map file_path (appends w) @
     (if \<not> paused this \<and> fst (p0_write e w this msg type show) = Inr ()
      then [fst (filePath e (snd (new_Date w)) this)] else [])"
  by (simp add: filePath_eq [symmetric] iog_write_appends p0_write_appends)

lemma p0_callback_eq:
  "p0_callback w r body type err =
     (if truthy err then Inl (Thrown err) else Inr (),
      if \<not> truthy err \<and> typeof_function (get_prop w r ''onLog'')
      then w\<lparr>onLog_calls := onLog_calls w @ [(get_prop w r ''onLog'', [JStr body, type])]\<rparr>
      else w)"
  by (simp add: p0_callback_def)

text \<open>
  C5. A write that is not paused and returns normally hands exactly one append to the
  file system. When that append completes with an error, the callback throws that very
  error and nothing else happens. In the version with \<^verbatim>\<open>onLog\<close>, when it
  completes without error the world changes in one way only: if \<^verbatim>\<open>onLog\<close>
  is then a function it is called once with the rendered text and the type, in that
  order; if it is not a function nothing is called. The first version has no
  \<^verbatim>\<open>onLog\<close> option: its callback rethrows the error, and on success does
  nothing.
\<close>

theorem append_completion:
  "(\<not> paused this \<and> fst (p0_write e w this msg type show) = Inr () \<longrightarrow>
      (let p = last (appends (snd (p0_write e w this msg type show)));
           f = get_prop w2 (opts this) ''onLog''
       in appends (snd (p0_write e w this msg type show)) = appends w @ [p] \<and>
          fst (append_done w2 p err) = (if truthy err then Inl (Thrown err) else Inr ()) \<and>
          snd (append_done w2 p err) =
            (if \<not> truthy err \<and> typeof_function f
             then w2\<lparr>onLog_calls := onLog_calls w2 @
                       [(f, [JStr (data p), default_arg type (JStr ''log'')])]\<rparr>
             else w2))) \<and>
   (\<not> paused this \<and> fst (iog_write e w this msg type show) = Inr () \<longrightarrow>
      (let p = last (appends (snd (iog_write e w this msg type show)))
       in appends (snd (iog_write e w this msg type show)) = appends w @ [p] \<and>
          fst (append_done w2 p err) = (if truthy err then Inl (Thrown err) else Inr ()) \<and>
          snd (append_done w2 p err) = w2))"
  by (simp add: p0_write_appends iog_write_appends Let_def append_done_def p0_callback_eq
      iog_callback_def)



lemma to_string_serialize_msg:
  "to_string (serialize_msg e msg) =
     (if typeof_object msg \<and> \<not> isError msg
      then stringify e msg (JObj [(''replace'', JNull), (''space'', JNum 2)])
      else to_string msg)"
  by (simp add: serialize_msg_def)

lemma block_text: "block this date type msg sep = block this date type (JStr (to_string msg)) sep"
  by (simp add: block_def)

text \<open>
  C7, amended. In the block format (the first version, and the later one when
  \<^verbatim>\<open>slim\<close> is falsy) the text placed after \<^verbatim>\<open>BODY:\<close> is, for an
  error value, its string coercion \<^verbatim>\<open>Error.prototype.toString\<close> (name, colon,
  message), with no serialisation; and for a structured value that is not an error, the
  serialiser's text for it with the options \<^verbatim>\<open>{replace: null, space: 2}\<close>.
\<close>

theorem block_body_text:
  "(\<not> paused this \<and> fst (iog_write e w this msg type show) = Inr () \<longrightarrow>
      (let rendered = data (last (appends (snd (iog_write e w this msg type show))));
           date = dateFormat e (clock w (reads w)) ''yyyy-mm-dd HH:MM:ss:l'';
           T = default_arg type (JStr ''log'');
           sep = get_prop w (opts this) ''separator''
       in (\<forall>name message. msg = JError name message \<longrightarrow>
             rendered = block this date T (JStr (error_toString name message)) sep) \<and>
          (typeof_object msg \<and> \<not> isError msg \<longrightarrow>
             rendered = block this date T
               (JStr (stringify e msg (JObj [(''replace'', JNull), (''space'', JNum 2)]))) sep))) \<and>
   (\<not> paused this \<and> \<not> truthy (get_prop w (opts this) ''slim'') \<and>
    fst (p0_write e w this msg type show) = Inr () \<longrightarrow>
      (let rendered = data (last (appends (snd (p0_write e w this msg type show))));
           date = dateFormat e (clock w (reads w)) ''yyyy-mm-dd HH:MM:ss:l'';
           T = default_arg type (JStr ''log'');
           sep = get_prop w (opts this) ''separator''
       in (\<forall>name message. msg = JError name message \<longrightarrow>
             rendered = block this date T (JStr (error_toString name message)) sep) \<and>
          (typeof_object msg \<and> \<not> isError msg \<longrightarrow>
             rendered = block this date T
               (JStr (stringify e msg (JObj [(''replace'', JNull), (''space'', JNum 2)]))) sep)))"
proof -
  have d: "typeof_object msg \<Longrightarrow> default_arg msg (JStr []) = msg"
    by (cases msg) (simp_all add: default_arg_def)
  have s: "typeof_object msg \<Longrightarrow> \<not> isError msg \<Longrightarrow>
        block this date T (serialize_msg e msg) sep =
        block this date T (JStr (stringify e msg (JObj [(''replace'', JNull), (''space'', JNum 2)]))) sep"
    for date T sep
    by (simp add: serialize_msg_def)
  have r: "block this date T (serialize_msg e (JError name message)) sep =
        block this date T (JStr (error_toString name message)) sep" for date T sep name message
    by (simp add: serialize_msg_def block_def)
  show ?thesis
    by (simp add: iog_write_appends p0_write_appends Let_def p0_body_def d s r default_arg_def)
qed

section \<open>The slim record of a sample logger\<close>

lemma slim_world_eq:
  "slim_world = \<lparr>heap = [0 \<mapsto> [''slim'' \<mapsto> JBool True, ''onLog'' \<mapsto> JFun 7 ''cb''],
      1 \<mapsto> p0_defaults ++ [''slim'' \<mapsto> JBool True, ''onLog'' \<mapsto> JFun 7 ''cb'']],
     next_ref = 2, clock = (\<lambda>n. n), reads = 0, console_out = [],
      appends = [], timers = [], sweeps = [], dirs = [JStr ''logs''], onLog_calls = []\<rparr>"
  by (simp add: slim_world_def p0_constructor_def p0_merge_def new_object_def boot_def
     Object_assign_def constructor_rest_def get_prop_def obj_at_def p0_defaults_def sample_env_def)

lemma slim_write:
  "p0_write sample_env slim_world svc (JObj [(''a'', JNum 1)]) JUndefined JUndefined =
     (Inr (), slim_world\<lparr>reads := 1, console_out := [(''log'', slim_text)],
        appends := [\<lparr>file_path = ''logs/svc.log'', data = slim_text,
                     on_done = RethrowThenOnLog 1 slim_text (JStr ''log'')\<rparr>]\<rparr>)"
  by (simp add: p0_write_def default_arg_def svc_def slim_world_eq new_Date_def p0_body_def
      get_prop_def obj_at_def p0_defaults_def console_step_def appendFile_def filePath_def
      sample_env_def slim_text_def digits.simps Let_def)



section \<open>The merge\<close>

lemma get_prop_set_prop:
  "get_prop (set_prop w r k v) r k' = (if k' = k then v else get_prop w r k')"
  by (simp add: get_prop_def set_prop_def obj_at_def)

lemma fst_p0_merge [simp]: "fst (p0_merge w opts_arg) = next_ref w"
  by (simp add: p0_merge_def new_object_def Let_def)

lemma p0_merge_frame [simp]:
  "timers (snd (p0_merge w opts_arg)) = timers w"
  "sweeps (snd (p0_merge w opts_arg)) = sweeps w"
  "dirs (snd (p0_merge w opts_arg)) = dirs w"
  by (simp_all add: p0_merge_def new_object_def Let_def Object_assign_def)

lemma iog_merge_frame [simp]:
  "timers (snd (iog_merge w opts_arg)) = timers w"
  "sweeps (snd (iog_merge w opts_arg)) = sweeps w"
  "dirs (snd (iog_merge w opts_arg)) = dirs w"
  by (simp_all add: iog_merge_def new_object_def Let_def Object_assign_def split: option.splits)

lemma p0_merge_supplied_over_defaults:
  "get_prop (snd (p0_merge w opts_arg)) (fst (p0_merge w opts_arg)) k =
     merged_over (supplied_opts w opts_arg) p0_defaults k"
proof -
  have "get_prop (snd (p0_merge w opts_arg)) (fst (p0_merge w opts_arg)) k =
        (case supplied_opts w opts_arg k of
           Some v \<Rightarrow> v
         | None \<Rightarrow> get_prop (snd (new_object w p0_defaults)) (fst (new_object w p0_defaults)) k)"
    by (simp add: p0_merge_def Let_def split_def get_prop_Object_assign supplied_opts_def)
  then show ?thesis by (simp only: get_prop_new_object merged_over_def)
qed

lemma iog_merge_defaults_over_supplied:
  "get_prop (snd (iog_merge w (Some a))) (fst (iog_merge w (Some a))) k =
     merged_over iog_defaults (obj_at w a) k"
proof -
  have "get_prop (snd (iog_merge w (Some a))) (fst (iog_merge w (Some a))) k =
        (case iog_defaults k of Some v \<Rightarrow> v | None \<Rightarrow> get_prop w a k)"
    by (simp add: iog_merge_def get_prop_Object_assign)
  then show ?thesis by (simp add: merged_over_def get_prop_def split: option.splits)
qed

lemma iog_merge_Some:
  "iog_merge w (Some a) = (a, w\<lparr>heap := (heap w)(a \<mapsto> obj_at w a ++ iog_defaults)\<rparr>)"
  by (simp add: iog_merge_def Object_assign_def)

lemma iog_rotation_off:
  "get_prop (snd (iog_merge w opts_arg)) (fst (iog_merge w opts_arg)) ''rotation'' = JBool False"
  by (simp add: iog_merge_def get_prop_Object_assign split_def Let_def iog_defaults_def
      split: option.splits)

lemma iog_path_log:
  "get_prop (snd (iog_merge w opts_arg)) (fst (iog_merge w opts_arg)) ''path'' = JStr ''log''"
  by (simp add: iog_merge_def get_prop_Object_assign split_def Let_def iog_defaults_def
      split: option.splits)

lemma constructor_rest_no_rotation:
  "\<not> truthy (get_prop w (opts this) ''rotation'') \<Longrightarrow>
   constructor_rest e w this =
     (if truthy (get_prop w (opts this) ''path'')
      then (if mkdirp_sync e (get_prop w (opts this) ''path'')
            then (Inr this, w\<lparr>dirs := dirs w @ [get_prop w (opts this) ''path'']\<rparr>)
            else (Inl (LibraryThrew ''mkdirp.sync''), w))
      else (Inr this, w))"
  by (simp add: constructor_rest_def)

lemma iog_constructor_eq:
  "ctx \<noteq> JUndefined \<Longrightarrow>
   iog_constructor e w ctx opts_arg =
     (let (r, w1) = iog_merge w opts_arg
      in if mkdirp_sync e (JStr ''log'')
         then (Inr \<lparr>contextName = ctx, opts = r, paused = False\<rparr>,
               w1\<lparr>dirs := dirs w1 @ [JStr ''log'']\<rparr>)
         else (Inl (LibraryThrew ''mkdirp.sync''), w1))"
proof -
  assume "ctx \<noteq> JUndefined"
  then have u: "\<not> typeof_undefined ctx" by (cases ctx) simp_all
  show ?thesis
    using iog_rotation_off [of w opts_arg] iog_path_log [of w opts_arg]
    by (simp add: iog_constructor_def u split_def Let_def constructor_rest_no_rotation)
qed

text \<open>
  C10. In \<^verbatim>\<open>src/iog.js\<close>, for every defined context name and every options
  object the caller passes, construction writes into that very object: afterwards its
  fields are the defaults wherever a default exists and unchanged elsewhere (whether or
  not the directory could be created), and the logger returned keeps a reference to that
  same object as its configuration.
\<close>

theorem iog_constructor_mutates_caller_object:
  "ctx \<noteq> JUndefined \<longrightarrow>
     heap (snd (iog_constructor e w ctx (Some a))) = (heap w)(a \<mapsto> obj_at w a ++ iog_defaults) \<and>
     (\<forall>k. get_prop (snd (iog_constructor e w ctx (Some a))) a k =
            (case iog_defaults k of Some d \<Rightarrow> d | None \<Rightarrow> get_prop w a k)) \<and>
     (mkdirp_sync e (JStr ''log'') \<longrightarrow>
        fst (iog_constructor e w ctx (Some a)) = Inr \<lparr>contextName = ctx, opts = a, paused = False\<rparr>)"
  by (simp add: iog_constructor_eq iog_merge_Some get_prop_def obj_at_def map_add_def
      split: option.splits)

section \<open>The retention sweep\<close>

lemmas run_defs =
  iog_constructor_def p0_constructor_def iog_merge_def p0_merge_def new_object_def boot_def
  Object_assign_def constructor_rest_def get_prop_def set_prop_def obj_at_def iog_defaults_def
  p0_defaults_def sample_env_def clear_def number_of_def Let_def

text \<open>
  C1 at \<^verbatim>\<open>new Iog('svc', {console: false, path: '/var/log/app'})\<close>. In
  \<^verbatim>\<open>src/iog.js\<close> the configuration holds the defaults
  \<^verbatim>\<open>console = true\<close> and \<^verbatim>\<open>path = 'log'\<close>: the caller's options
  are overwritten. The later version keeps the caller's options.
\<close>

theorem iog_constructor_ignores_options:
  "fst (iog_constructor sample_env
         (boot [''console'' \<mapsto> JBool False, ''path'' \<mapsto> JStr ''/var/log/app''])
         (JStr ''svc'') (Some 0)) = Inr \<lparr>contextName = JStr ''svc'', opts = 0, paused = False\<rparr> \<and>
   get_prop (snd (iog_constructor sample_env
         (boot [''console'' \<mapsto> JBool False, ''path'' \<mapsto> JStr ''/var/log/app''])
         (JStr ''svc'') (Some 0))) 0 ''console'' = JBool True \<and>
   get_prop (snd (iog_constructor sample_env
         (boot [''console'' \<mapsto> JBool False, ''path'' \<mapsto> JStr ''/var/log/app''])
         (JStr ''svc'') (Some 0))) 0 ''path'' = JStr ''log'' \<and>
   fst (p0_constructor sample_env
         (boot [''console'' \<mapsto> JBool False, ''path'' \<mapsto> JStr ''/var/log/app''])
         (JStr ''svc'') (Some 0)) = Inr \<lparr>contextName = JStr ''svc'', opts = 1, paused = False\<rparr> \<and>
   get_prop (snd (p0_constructor sample_env
         (boot [''console'' \<mapsto> JBool False, ''path'' \<mapsto> JStr ''/var/log/app''])
         (JStr ''svc'') (Some 0))) 1 ''console'' = JBool False \<and>
   get_prop (snd (p0_constructor sample_env
         (boot [''console'' \<mapsto> JBool False, ''path'' \<mapsto> JStr ''/var/log/app''])
         (JStr ''svc'') (Some 0))) 1 ''path'' = JStr ''/var/log/app''"
  by (simp add: run_defs)

text \<open>
  C2 at \<^verbatim>\<open>new Iog('svc', {rotation: true, deleteAge: 1})\<close>. In the later
  version the sweep runs once during construction, with an age of 86400 seconds, and arms
  one timer; when the timer fires the sweep runs again and arms one timer again. The
  delay handed to \<^verbatim>\<open>setTimeout\<close> is 86400, which the platform reads as
  milliseconds, where 86400 seconds are 86400000. In \<^verbatim>\<open>src/iog.js\<close> the
  same call arms no timer.
\<close>

theorem sweep_rearmed_after_86400_ms:
  "map delay_ms (timers (snd (p0_constructor sample_env
       (boot [''rotation'' \<mapsto> JBool True, ''deleteAge'' \<mapsto> JNum 1]) (JStr ''svc'') (Some 0))))
     = [86400] \<and>
   map age_seconds (sweeps (snd (p0_constructor sample_env
       (boot [''rotation'' \<mapsto> JBool True, ''deleteAge'' \<mapsto> JNum 1]) (JStr ''svc'') (Some 0))))
     = [Some 86400] \<and>
   map delay_ms (timers (timer_fires sample_env (snd (p0_constructor sample_env
       (boot [''rotation'' \<mapsto> JBool True, ''deleteAge'' \<mapsto> JNum 1]) (JStr ''svc'') (Some 0)))))
     = [86400] \<and>
   length (sweeps (timer_fires sample_env (snd (p0_constructor sample_env
       (boot [''rotation'' \<mapsto> JBool True, ''deleteAge'' \<mapsto> JNum 1]) (JStr ''svc'') (Some 0)))))
     = 2 \<and>
   seconds_as_ms 86400 = 86400000 \<and>
   timers (snd (iog_constructor sample_env
       (boot [''rotation'' \<mapsto> JBool True, ''deleteAge'' \<mapsto> JNum 1]) (JStr ''svc'') (Some 0)))
     = []"
  by (simp add: run_defs timer_fires_def DAY_SECONDS_def seconds_as_ms_def)

text \<open>
  C4, as stated, fails: with \<^verbatim>\<open>{deleteAge: 5}\<close> and no rotation the logger is
  constructed, its retention window is 5, and no sweep has run and no timer is armed.
\<close>

theorem no_sweep_without_rotation:
  "fst (p0_constructor sample_env (boot [''deleteAge'' \<mapsto> JNum 5]) (JStr ''svc'') (Some 0)) =
     Inr \<lparr>contextName = JStr ''svc'', opts = 1, paused = False\<rparr> \<and>
   get_prop (snd (p0_constructor sample_env (boot [''deleteAge'' \<mapsto> JNum 5]) (JStr ''svc'')
     (Some 0))) 1 ''deleteAge'' = JNum 5 \<and>
   timers (snd (p0_constructor sample_env (boot [''deleteAge'' \<mapsto> JNum 5]) (JStr ''svc'')
     (Some 0))) = [] \<and>
   sweeps (snd (p0_constructor sample_env (boot [''deleteAge'' \<mapsto> JNum 5]) (JStr ''svc'')
     (Some 0))) = []"
  by (simp add: run_defs)

lemma set_prop_frame [simp]:
  "timers (set_prop w r k v) = timers w"
  "sweeps (set_prop w r k v) = sweeps w"
  "dirs (set_prop w r k v) = dirs w"
  by (simp_all add: set_prop_def)

lemma constructor_rest_timers:
  "timers (snd (constructor_rest e w this)) =
     timers w @
     (if truthy (get_prop w (opts this) ''rotation'') \<and>
         path_resolve e (get_prop w (opts this) ''path'') (contextName this) \<noteq> None \<and>
         truthy (get_prop w (opts this) ''deleteAge'')
      then [\<lparr>delay_ms = DAY_SECONDS, target = this\<rparr>] else [])"
  by (auto simp add: constructor_rest_def Let_def get_prop_set_prop clear_def
      split: option.splits)

lemma constructor_rest_sweeps:
  "sweeps (snd (constructor_rest e w this)) =
     sweeps w @
     (if truthy (get_prop w (opts this) ''rotation'') \<and>
         path_resolve e (get_prop w (opts this) ''path'') (contextName this) \<noteq> None \<and>
         truthy (get_prop w (opts this) ''deleteAge'')
      then [\<lparr>dir = JStr (the (path_resolve e (get_prop w (opts this) ''path'') (contextName this))),
             age_seconds = map_option (\<lambda>n. n * DAY_SECONDS)
                             (number_of e (get_prop w (opts this) ''deleteAge'')),
             extensions = [get_prop w (opts this) ''logExt'']\<rparr>]
      else [])"
  by (auto simp add: constructor_rest_def Let_def get_prop_set_prop clear_def
      split: option.splits)


text \<open>
  C4, amended (the later version). Construction runs the sweep once and arms its timer
  exactly when the context name is defined, the merged \<^verbatim>\<open>rotation\<close> is
  truthy, \<^verbatim>\<open>path.resolve\<close> returns and the merged \<^verbatim>\<open>deleteAge\<close>
  is truthy (every positive number is); otherwise construction runs no sweep and arms no
  timer, whatever \<^verbatim>\<open>deleteAge\<close> is. The sweep is over the resolved directory,
  with the age \<^verbatim>\<open>deleteAge * 86400\<close> seconds and the configured extension. A
  timer that fires runs one more sweep and arms the next timer for the same logger.
\<close>

theorem sweeper_started_iff:
  "(let cfg = merged_over (supplied_opts w opts_arg) p0_defaults;
        this = \<lparr>contextName = ctx, opts = next_ref w, paused = False\<rparr>;
        started = (ctx \<noteq> JUndefined \<and> truthy (cfg ''rotation'') \<and>
                   path_resolve e (cfg ''path'') ctx \<noteq> None \<and> truthy (cfg ''deleteAge''));
        w' = snd (p0_constructor e w ctx opts_arg)
    in timers w' = timers w @ (if started then [\<lparr>delay_ms = DAY_SECONDS, target = this\<rparr>] else []) \<and>
       sweeps w' = sweeps w @
         (if started
          then [\<lparr>dir = JStr (the (path_resolve e (cfg ''path'') ctx)),
                 age_seconds = map_option (\<lambda>n. n * DAY_SECONDS) (number_of e (cfg ''deleteAge'')),
                 extensions = [cfg ''logExt'']\<rparr>]
          else [])) \<and>
   timers (timer_fires e (w2\<lparr>timers := t # ts\<rparr>)) = ts @ [\<lparr>delay_ms = DAY_SECONDS, target = target t\<rparr>] \<and>
   length (sweeps (timer_fires e (w2\<lparr>timers := t # ts\<rparr>))) = Suc (length (sweeps w2))"
proof (cases "ctx = JUndefined")
  case True
  then show ?thesis
    by (simp add: p0_constructor_def Let_def timer_fires_def clear_def)
next
  case False
  then have u: "\<not> typeof_undefined ctx" by (cases ctx) simp_all
  have g: "get_prop (snd (p0_merge w opts_arg)) (next_ref w) k =
             merged_over (supplied_opts w opts_arg) p0_defaults k" for k
    using p0_merge_supplied_over_defaults [of w opts_arg k] by simp
  show ?thesis
    using False
    by (simp add: p0_constructor_def u split_def Let_def constructor_rest_timers
        constructor_rest_sweeps g timer_fires_def clear_def)
qed

section \<open>The records of the sample loggers\<close>

lemma iog_world_eq:
  "iog_world = \<lparr>heap = [0 \<mapsto> iog_defaults], next_ref = 1, clock = (\<lambda>n. n), reads = 0,
      console_out = [], appends = [], timers = [], sweeps = [], dirs = [JStr ''log''],
      onLog_calls = []\<rparr>"
  by (simp add: iog_world_def iog_constructor_def iog_merge_def boot_def Object_assign_def
      constructor_rest_def get_prop_def obj_at_def sample_env_def)
     (simp add: iog_defaults_def)

lemmas write_defs =
  iog_write_def p0_write_def default_arg_def new_Date_def p0_body_def serialize_msg_def
  get_prop_def obj_at_def console_step_def appendFile_def filePath_def sample_env_def Let_def
  digits.simps

lemma iog_write_error:
  "iog_write sample_env iog_world svc0 (JError ''Error'' ''boom'') JUndefined JUndefined =
     (Inr (), iog_world\<lparr>reads := 1,
        console_out := [(''log'', block svc0 ''1970-01-01 00:00:00:000'' (JStr ''log'')
                                   (JStr ''Error: boom'') (JStr SEPARATOR))],
        appends := [\<lparr>file_path = ''log/svc.log'',
                     data = block svc0 ''1970-01-01 00:00:00:000'' (JStr ''log'')
                              (JStr ''Error: boom'') (JStr SEPARATOR),
                     on_done = Rethrow\<rparr>]\<rparr>)"
  by (simp add: write_defs svc0_def iog_world_eq iog_defaults_def block_def error_toString_def)

text \<open>
  C7, as stated, fails: for \<^verbatim>\<open>new Error('boom')\<close> the text after
  \<^verbatim>\<open>BODY:\<close> is \<^verbatim>\<open>Error: boom\<close>, not the message
  \<^verbatim>\<open>boom\<close> alone.
\<close>

theorem error_body_is_not_message_only:
  "data (last (appends (snd (iog_write sample_env iog_world svc0 (JError ''Error'' ''boom'')
      JUndefined JUndefined)))) =
     block svc0 ''1970-01-01 00:00:00:000'' (JStr ''log'') (JStr ''Error: boom'') (JStr SEPARATOR) \<and>
   block svc0 ''1970-01-01 00:00:00:000'' (JStr ''log'') (JStr ''Error: boom'') (JStr SEPARATOR) \<noteq>
     block svc0 ''1970-01-01 00:00:00:000'' (JStr ''log'') (JStr ''boom'') (JStr SEPARATOR)"
  by (simp add: iog_write_error) (simp add: block_def)

text \<open>The block bodies of a \<^verbatim>\<open>TypeError\<close> and of \<^verbatim>\<open>{a: 1}\<close>.\<close>

theorem block_body_text_witness:
  "data (last (appends (snd (iog_write sample_env iog_world svc0 (JError ''TypeError'' ''bad'')
      JUndefined JUndefined)))) =
     block svc0 ''1970-01-01 00:00:00:000'' (JStr ''log'') (JStr ''TypeError: bad'')
       (JStr SEPARATOR) \<and>
   data (last (appends (snd (iog_write sample_env iog_world svc0 (JObj [(''a'', JNum 1)])
      JUndefined JUndefined)))) =
     block svc0 ''1970-01-01 00:00:00:000'' (JStr ''log'') (JStr (object_text [(''a'', ''1'')]))
       (JStr SEPARATOR)"
proof -
  have p: "\<not> paused svc0" by (simp add: svc0_def)
  have f1: "fst (iog_write sample_env iog_world svc0 (JError ''TypeError'' ''bad'')
              JUndefined JUndefined) = Inr ()"
    by (simp add: write_defs svc0_def iog_world_eq iog_defaults_def)
  have f2: "fst (iog_write sample_env iog_world svc0 (JObj [(''a'', JNum 1)])
              JUndefined JUndefined) = Inr ()"
    by (simp add: write_defs svc0_def iog_world_eq iog_defaults_def)
  have df: "dateFormat sample_env t ''yyyy-mm-dd HH:MM:ss:l'' = ''1970-01-01 00:00:00:000''" for t
    by (simp add: sample_env_def)
  have st: "stringify sample_env (JObj [(''a'', JNum 1)]) options = object_text [(''a'', ''1'')]"
    for options
    by (simp add: sample_env_def digits.simps)
  have sp: "get_prop iog_world (opts svc0) ''separator'' = JStr SEPARATOR"
    by (simp add: iog_world_eq svc0_def get_prop_def obj_at_def iog_defaults_def)
  from block_body_text [of svc0 sample_env iog_world "JError ''TypeError'' ''bad''" JUndefined JUndefined]
    block_body_text [of svc0 sample_env iog_world "JObj [(''a'', JNum 1)]" JUndefined JUndefined]
  show ?thesis
    by (simp add: p f1 f2 df st sp Let_def default_arg_def error_toString_def)
qed

text \<open>One write, completed without error and completed with an error.\<close>

theorem append_completion_witness:
  "appends (snd (p0_write sample_env slim_world svc (JObj [(''a'', JNum 1)]) JUndefined JUndefined)) =
     [\<lparr>file_path = ''logs/svc.log'', data = slim_text,
       on_done = RethrowThenOnLog 1 slim_text (JStr ''log'')\<rparr>] \<and>
   append_done slim_world
     (last (appends (snd (p0_write sample_env slim_world svc (JObj [(''a'', JNum 1)])
        JUndefined JUndefined)))) JNull =
     (Inr (), slim_world\<lparr>onLog_calls := [(JFun 7 ''cb'', [JStr slim_text, JStr ''log''])]\<rparr>) \<and>
   append_done slim_world
     (last (appends (snd (p0_write sample_env slim_world svc (JObj [(''a'', JNum 1)])
        JUndefined JUndefined)))) (JError ''Error'' ''EACCES'') =
     (Inl (Thrown (JError ''Error'' ''EACCES'')), slim_world)"
proof -
  have p: "\<not> paused svc" by (simp add: svc_def)
  have f: "fst (p0_write sample_env slim_world svc (JObj [(''a'', JNum 1)]) JUndefined JUndefined)
             = Inr ()"
    by (simp add: slim_write)
  have g: "get_prop slim_world (opts svc) ''onLog'' = JFun 7 ''cb''"
    by (simp add: svc_def slim_world_eq get_prop_def obj_at_def)
  have o: "onLog_calls slim_world = []" by (simp add: slim_world_eq)
  from append_completion [of svc sample_env slim_world "JObj [(''a'', JNum 1)]" JUndefined
      JUndefined slim_world JNull]
    append_completion [of svc sample_env slim_world "JObj [(''a'', JNum 1)]" JUndefined
      JUndefined slim_world "JError ''Error'' ''EACCES''"]
  show ?thesis
    by (simp add: p f g o Let_def slim_write default_arg_def prod_eq_iff)
qed

text \<open>The caller's object \<^verbatim>\<open>{console: false}\<close> after construction.\<close>

theorem iog_constructor_mutates_caller_object_witness:
  "JStr ''svc'' \<noteq> JUndefined \<and> mkdirp_sync sample_env (JStr ''log'') \<and>
   heap (snd (iog_constructor sample_env (boot [''console'' \<mapsto> JBool False]) (JStr ''svc'') (Some 0)))
     0 = Some ([''console'' \<mapsto> JBool False] ++ iog_defaults) \<and>
   get_prop (snd (iog_constructor sample_env (boot [''console'' \<mapsto> JBool False]) (JStr ''svc'')
     (Some 0))) 0 ''console'' = JBool True \<and>
   fst (iog_constructor sample_env (boot [''console'' \<mapsto> JBool False]) (JStr ''svc'') (Some 0)) =
     Inr \<lparr>contextName = JStr ''svc'', opts = 0, paused = False\<rparr>"
proof -
  have m: "mkdirp_sync sample_env (JStr ''log'')" by (simp add: sample_env_def)
  have b: "obj_at (boot [''console'' \<mapsto> JBool False]) 0 = [''console'' \<mapsto> JBool False]"
    by (simp add: obj_at_def boot_def)
  have h: "heap (boot [''console'' \<mapsto> JBool False]) = [0 \<mapsto> [''console'' \<mapsto> JBool False]]"
    by (simp add: boot_def)
  have d: "iog_defaults ''console'' = Some (JBool True)" by (simp add: iog_defaults_def)
  from iog_constructor_mutates_caller_object
    [of "JStr ''svc''" sample_env "boot [''console'' \<mapsto> JBool False]" 0]
  show ?thesis
    by (simp add: m b h d)
qed

end
